theory Spec2Isabelle
  imports Main "HOL-Library.AList"
begin

section \<open>Type descriptors\<close>

text \<open>
  The generator reads Go types through \<open>reflect.Type\<close>: \<open>Kind()\<close>, \<open>Elem()\<close>,
  \<open>String()\<close>, \<open>Name()\<close>, \<open>NumField()\<close> and \<open>Field(i)\<close>. A \<open>reflect.Type\<close>
  is a pointer to a runtime descriptor, and type graphs may be cyclic (a struct with a
  field of type slice of itself), so descriptors live in a table and refer to each other
  by index. The index is the identity that the \<open>visited\<close> map of the walk is keyed by.
\<close>

datatype kind =
    KInvalid | KBool | KInt | KInt8 | KInt16 | KInt32 | KInt64
  | KUint | KUint8 | KUint16 | KUint32 | KUint64 | KUintptr
  | KFloat32 | KFloat64 | KComplex64 | KComplex128
  | KArray | KChan | KFunc | KInterface | KMap | KPointer | KSlice | KString | KStruct
  | KUnsafePointer

text \<open>\<open>Kind.String()\<close> of package reflect.\<close>

fun kindString :: "kind \<Rightarrow> string" where
  "kindString KInvalid = ''invalid''"
| "kindString KBool = ''bool''"
| "kindString KInt = ''int''"
| "kindString KInt8 = ''int8''"
| "kindString KInt16 = ''int16''"
| "kindString KInt32 = ''int32''"
| "kindString KInt64 = ''int64''"
| "kindString KUint = ''uint''"
| "kindString KUint8 = ''uint8''"
| "kindString KUint16 = ''uint16''"
| "kindString KUint32 = ''uint32''"
| "kindString KUint64 = ''uint64''"
| "kindString KUintptr = ''uintptr''"
| "kindString KFloat32 = ''float32''"
| "kindString KFloat64 = ''float64''"
| "kindString KComplex64 = ''complex64''"
| "kindString KComplex128 = ''complex128''"
| "kindString KArray = ''array''"
| "kindString KChan = ''chan''"
| "kindString KFunc = ''func''"
| "kindString KInterface = ''interface''"
| "kindString KMap = ''map''"
| "kindString KPointer = ''ptr''"
| "kindString KSlice = ''slice''"
| "kindString KString = ''string''"
| "kindString KStruct = ''struct''"
| "kindString KUnsafePointer = ''unsafe.Pointer''"

text \<open>
  \<open>reflect.StructField\<close>: the declared identifier, the value of the \<open>json\<close> key of the
  struct tag (what \<open>field.Tag.Get("json")\<close> returns, empty when the key is absent) and
  the index of the field's type.
\<close>

record StructField =
  FieldName :: string
  FieldTag :: string
  FieldType :: nat

text \<open>
  One runtime descriptor. \<open>tElem\<close> is read only for kinds that have an element type
  and \<open>tFields\<close> only for structs: every \<open>Elem()\<close>, \<open>NumField()\<close> and \<open>Field(i)\<close>
  of the source sits behind a test of \<open>Kind()\<close> that makes it legal, so the panics of
  package reflect on other kinds are unreachable and the two components are ignored there.
\<close>

record rtype =
  tKind :: kind
  tString :: string
  tName :: string
  tElem :: nat
  tFields :: "StructField list"

type_synonym typeTable = "rtype list"

definition invalidType :: rtype where
  "invalidType = \<lparr>tKind = KInvalid, tString = ''<invalid>'', tName = '''', tElem = 0, tFields = []\<rparr>"

definition typeAt :: "typeTable \<Rightarrow> nat \<Rightarrow> rtype" where
  "typeAt env t = (if t < length env then env ! t else invalidType)"

definition Kind :: "typeTable \<Rightarrow> nat \<Rightarrow> kind" where
  "Kind env t = tKind (typeAt env t)"

definition Elem :: "typeTable \<Rightarrow> nat \<Rightarrow> nat" where
  "Elem env t = tElem (typeAt env t)"

definition TypeString :: "typeTable \<Rightarrow> nat \<Rightarrow> string" where
  "TypeString env t = tString (typeAt env t)"

definition NameOf :: "typeTable \<Rightarrow> nat \<Rightarrow> string" where
  "NameOf env t = tName (typeAt env t)"

definition Fields :: "typeTable \<Rightarrow> nat \<Rightarrow> StructField list" where
  "Fields env t = tFields (typeAt env t)"

section \<open>String helpers of the standard library\<close>

text \<open>
  Strings are byte lists. Field identifiers and tags are taken to be ASCII, where the
  runes that \<open>range\<close> yields are the bytes and \<open>unicode.IsUpper\<close> and
  \<open>unicode.ToLower\<close> are the ASCII ones.
\<close>

definition isUpper :: "char \<Rightarrow> bool" where
  "isUpper r = (65 \<le> (of_char r :: nat) \<and> (of_char r :: nat) \<le> 90)"

definition toLower :: "char \<Rightarrow> char" where
  "toLower r = (if isUpper r then char_of ((of_char r :: nat) + 32) else r)"

text \<open>\<open>strings.HasPrefix(s, prefix)\<close>.\<close>

fun hasPrefix :: "string \<Rightarrow> string \<Rightarrow> bool" where
  "hasPrefix s [] = True"
| "hasPrefix [] (p # ps) = False"
| "hasPrefix (c # cs) (p # ps) = (c = p \<and> hasPrefix cs ps)"

text \<open>\<open>strings.Contains(s, substr)\<close>.\<close>

fun contains :: "string \<Rightarrow> string \<Rightarrow> bool" where
  "contains [] substr = (substr = [])"
| "contains (c # cs) substr = (hasPrefix (c # cs) substr \<or> contains cs substr)"

text \<open>\<open>strings.Split(s, ",")\<close>: never empty, one more part than there are commas.\<close>

fun splitComma :: "string \<Rightarrow> string list" where
  "splitComma [] = [[]]"
| "splitComma (c # cs) =
     (if c = CHR '','' then [] # splitComma cs
      else (c # hd (splitComma cs)) # tl (splitComma cs))"

text \<open>\<open>strings.Join(parts, ",")\<close>.\<close>

fun joinComma :: "string list \<Rightarrow> string" where
  "joinComma [] = []"
| "joinComma [x] = x"
| "joinComma (x # y # ys) = x @ '','' @ joinComma (y # ys)"

text \<open>\<open>strconv.Itoa\<close> on a non-negative counter.\<close>

function itoa :: "nat \<Rightarrow> string" where
  "itoa n = (if n < 10 then [char_of (48 + n)] else itoa (n div 10) @ [char_of (48 + n mod 10)])"
  by pat_completeness auto
termination
  by (relation "measure id") auto

declare itoa.simps [simp del]

section \<open>Case conversion\<close>

text \<open>
  \<open>toSnakeCase\<close> walks the identifier with its index, writing into a builder: an upper
  case rune is written lower-cased, after an underscore unless it is the first rune.
\<close>

fun toSnakeCaseLoop :: "nat \<Rightarrow> string \<Rightarrow> string \<Rightarrow> string" where
  "toSnakeCaseLoop i [] result = result"
| "toSnakeCaseLoop i (r # rs) result =
     toSnakeCaseLoop (Suc i) rs
       (if isUpper r
        then (if i > 0 then result @ ''_'' else result) @ [toLower r]
        else result @ [r])"

definition toSnakeCase :: "string \<Rightarrow> string" where
  "toSnakeCase s = toSnakeCaseLoop 0 s []"

section \<open>Type classification\<close>

definition typeArray :: string where
  "typeArray = ''array''"

text \<open>The table \<open>typeMapping\<close>: Go type name to JSON type, format and terminal flag.\<close>

definition typeMapping :: "(string \<times> (string \<times> string \<times> bool)) list" where
  "typeMapping =
    [(''uuid.UUID'', (''string'', ''uuid'', True)),
     (''EventName'', (''string'', '''', True)),
     (''*string'', (''string'', '''', True)),
     (''string'', (''string'', '''', True)),
     (''float64'', (''number'', '''', True)),
     (''*float64'', (''number'', '''', True)),
     (''float32'', (''number'', '''', True)),
     (''*float32'', (''number'', '''', True)),
     (''int'', (''integer'', '''', True)),
     (''*int'', (''integer'', '''', True)),
     (''uint'', (''integer'', '''', True)),
     (''*uint'', (''integer'', '''', True)),
     (''uint8'', (''integer'', '''', True)),
     (''*uint8'', (''integer'', '''', True)),
     (''uint16'', (''integer'', '''', True)),
     (''*uint16'', (''integer'', '''', True)),
     (''uint32'', (''integer'', '''', True)),
     (''*uint32'', (''integer'', '''', True)),
     (''uint64'', (''integer'', '''', True)),
     (''*uint64'', (''integer'', '''', True)),
     (''int8'', (''integer'', '''', True)),
     (''*int8'', (''integer'', '''', True)),
     (''int16'', (''integer'', '''', True)),
     (''*int16'', (''integer'', '''', True)),
     (''int32'', (''integer'', '''', True)),
     (''*int32'', (''integer'', '''', True)),
     (''int64'', (''integer'', '''', True)),
     (''*int64'', (''integer'', '''', True)),
     (''bool'', (''boolean'', '''', True)),
     (''*bool'', (''boolean'', '''', True)),
     (''time.Time'', (''string'', ''date-time'', True)),
     (''*time.Time'', (''string'', ''date-time'', True)),
     (''interface{}'', ('''', '''', False)),
     (''*interface{}'', ('''', '''', False)),
     (''any'', ('''', '''', False)),
     (''json.RawMessage'', (''string'', '''', True)),
     (''*json.RawMessage'', (''string'', '''', True)),
     (''[]byte'', (''string'', ''byte'', True)),
     (''*[]byte'', (''string'', ''byte'', True))]"

text \<open>
  \<open>convertToEventName(defType, refType)\<close>; \<open>refType\<close> is a pointer that may be nil.
  The recursive calls pass nil, so the recursion is one level deep.
\<close>

function convertToEventName :: "typeTable \<Rightarrow> string \<Rightarrow> nat option \<Rightarrow> string \<times> string \<times> bool" where
  "convertToEventName env defType refType =
     (if defType = ''interface{}'' \<or> defType = ''*interface{}'' then ('''', '''', True)
      else case map_of typeMapping defType of
        Some mapping \<Rightarrow> mapping
      | None \<Rightarrow>
          if hasPrefix defType ''map['' then (''object'', '''', True)
          else if hasPrefix defType ''chan '' \<or> hasPrefix defType ''<-chan ''
                  \<or> hasPrefix defType ''chan<- '' then (''string'', '''', True)
          else if hasPrefix defType ''func('' then (''string'', '''', True)
          else (case refType of
              None \<Rightarrow> (defType, '''', False)
            | Some f \<Rightarrow>
                if Kind env f = KInterface then ('''', '''', True)
                else if kindString (Kind env f) \<noteq> ''ptr''
                  then convertToEventName env (kindString (Kind env f)) None
                else if Kind env (Elem env f) \<noteq> KStruct
                  then convertToEventName env (kindString (Kind env (Elem env f))) None
                else (defType, '''', False)))"
  by pat_completeness auto
termination
  by (relation "measure (\<lambda>(env, defType, refType). case refType of None \<Rightarrow> 0 | Some f \<Rightarrow> 1)") auto

declare convertToEventName.simps [simp del]

section \<open>Required keys\<close>

text \<open>
  The loop of \<open>GenerateRequired\<close> over the fields of a struct, appending to \<open>require\<close>.
\<close>

fun requiredLoop :: "typeTable \<Rightarrow> StructField list \<Rightarrow> string list \<Rightarrow> string list" where
  "requiredLoop env [] require = require"
| "requiredLoop env (field # rest) require =
     (let tag = FieldTag field in
      if tag = ''-'' then requiredLoop env rest require
      else if Kind env (FieldType field) = KSlice then requiredLoop env rest require
      else if Kind env (FieldType field) \<noteq> KPointer then
        (let args = splitComma tag;
             tagName = hd args;
             tagName = (if length tagName = 0 then toSnakeCase (FieldName field) else tagName);
             omitempty = joinComma (tl args)
         in if \<not> contains omitempty ''omitempty''
            then requiredLoop env rest (require @ [tagName])
            else requiredLoop env rest require)
      else
        (let args = splitComma tag;
             tagName = hd args
         in if tagName = ''tags''
            then requiredLoop env rest (require @ [tagName])
            else requiredLoop env rest require))"

text \<open>
  \<open>GenerateRequired(object, nestedObject)\<close>. \<open>object\<close> is given by its dynamic type,
  \<open>None\<close> for a nil interface value (\<open>reflect.TypeOf\<close> returns nil); \<open>nestedObject\<close>
  is a \<open>reflect.Type\<close> that may be nil.
\<close>

definition GenerateRequired :: "typeTable \<Rightarrow> nat option \<Rightarrow> nat option \<Rightarrow> string list" where
  "GenerateRequired env object nestedObject =
     (let t = (if nestedObject \<noteq> None then nestedObject else object) in
      case t of
        None \<Rightarrow> []
      | Some t \<Rightarrow>
          if Kind env t \<in> {KString, KSlice, KInt, KBool, KInterface, KMap, KChan, KFunc,
                KFloat32, KFloat64, KInt8, KInt16, KInt32, KInt64,
                KUint, KUint8, KUint16, KUint32, KUint64}
          then []
          else
            (let t = (if Kind env t = KPointer then Elem env t else t) in
             if Kind env t \<noteq> KStruct then []
             else requiredLoop env (Fields env t) []))"

section \<open>Schema data\<close>

datatype PropertyDefinition =
  PropertyDefinition
    (Type: string)
    (Description: string)
    (Format: string)
    (Required: "string list")
    (Items: "PropertyDefinition option")
    (Properties: "(string \<times> PropertyDefinition) list")
    (Ref: string)

text \<open>
  A Go map from keys to property definitions is an association list with one entry per
  key: \<open>m[k] = v\<close> is \<open>AList.update k v m\<close> and \<open>len(m)\<close> is its length.
\<close>

type_synonym properties = "(string \<times> PropertyDefinition) list"

record Schema =
  SchemaURL :: string
  Title :: string
  SchemaType :: string
  SchemaRequired :: "string list"
  SchemaProperties :: properties
  Definitions :: properties

record fieldInfo =
  Field :: StructField
  TagName :: string
  TypeName :: string
  InfoFormat :: string
  SliceFormat :: string
  SliceType :: string
  SkipNested :: bool
  IsArray :: bool

text \<open>The zero value of \<open>fieldInfo\<close> with \<open>Field\<close> and \<open>TagName\<close> set.\<close>

definition newFieldInfo :: "StructField \<Rightarrow> string \<Rightarrow> fieldInfo" where
  "newFieldInfo field tagName =
     \<lparr>Field = field, TagName = tagName, TypeName = '''', InfoFormat = '''',
      SliceFormat = '''', SliceType = '''', SkipNested = False, IsArray = False\<rparr>"

record schemaContext =
  visited :: "nat set"
  definitions :: properties
  counter :: nat

definition newContext :: schemaContext where
  "newContext = \<lparr>visited = {}, definitions = [], counter = 0\<rparr>"

section \<open>Field analysis\<close>

definition handleSliceType :: "typeTable \<Rightarrow> fieldInfo \<Rightarrow> nat \<Rightarrow> fieldInfo" where
  "handleSliceType env info fieldType =
     (let elemType = Elem env fieldType;
          sliceType = kindString (Kind env elemType);
          sliceType = (if sliceType = ''ptr'' then TypeString env elemType else sliceType)
      in case convertToEventName env sliceType None of
           (st, sf, sk) \<Rightarrow> info\<lparr>SliceType := st, SliceFormat := sf, SkipNested := sk\<rparr>)"

definition handlePointerType :: "typeTable \<Rightarrow> fieldInfo \<Rightarrow> nat \<Rightarrow> fieldInfo" where
  "handlePointerType env info fieldType =
     (let elemType = Elem env fieldType in
      if Kind env elemType = KSlice then
        (case convertToEventName env (TypeString env (Elem env elemType)) (Some fieldType) of
           (st, sf, sk) \<Rightarrow>
             info\<lparr>IsArray := True, TypeName := typeArray,
                  SliceType := st, SliceFormat := sf, SkipNested := sk\<rparr>)
      else
        (case convertToEventName env (TypeName info) (Some fieldType) of
           (tn, fmt, sk) \<Rightarrow> info\<lparr>TypeName := tn, InfoFormat := fmt, SkipNested := sk\<rparr>))"

definition analyzeFieldType :: "typeTable \<Rightarrow> fieldInfo \<Rightarrow> fieldInfo" where
  "analyzeFieldType env info0 =
     (let fieldType = FieldType (Field info0);
          info = info0\<lparr>TypeName := TypeString env fieldType\<rparr>
      in if TypeName info = ''interface{}''
         then info\<lparr>TypeName := '''', InfoFormat := '''', SkipNested := True\<rparr>
         else if TypeName info = ''[]byte'' \<or> TypeName info = ''[]uint8''
         then info\<lparr>TypeName := ''string'', InfoFormat := ''byte'', SkipNested := True,
                   IsArray := False\<rparr>
         else if Kind env fieldType = KSlice
         then handleSliceType env (info\<lparr>IsArray := True, TypeName := typeArray\<rparr>) fieldType
         else if Kind env fieldType = KPointer
         then handlePointerType env info fieldType
         else (case convertToEventName env (TypeName info) (Some fieldType) of
                 (tn, fmt, sk) \<Rightarrow> info\<lparr>TypeName := tn, InfoFormat := fmt, SkipNested := sk\<rparr>))"

definition extractFieldInfo :: "typeTable \<Rightarrow> StructField \<Rightarrow> fieldInfo" where
  "extractFieldInfo env field =
     (let tag = FieldTag field;
          args = splitComma tag;
          tagName = hd args
      in if tagName = ''-'' then newFieldInfo field ''-''
         else
           (let tagName = (if length tagName = 0 then toSnakeCase (FieldName field) else tagName)
            in analyzeFieldType env (newFieldInfo field tagName)))"

section \<open>Property builders\<close>

definition shouldUseDefinition :: "typeTable \<Rightarrow> nat \<Rightarrow> properties \<Rightarrow> bool" where
  "shouldUseDefinition env fieldType nested = (length nested > 2 \<and> Kind env fieldType = KStruct)"

definition createDefinitionReference ::
  "typeTable \<Rightarrow> schemaContext \<Rightarrow> fieldInfo \<Rightarrow> properties \<Rightarrow> string list
     \<Rightarrow> PropertyDefinition \<times> schemaContext" where
  "createDefinitionReference env ctx info nested required =
     (let defName0 = NameOf env (FieldType (Field info));
          defName = (if defName0 = '''' then ''AnonymousStruct'' @ itoa (counter ctx) else defName0);
          ctx1 = (if defName0 = '''' then ctx\<lparr>counter := counter ctx + 1\<rparr> else ctx);
          ctx2 = (case map_of (definitions ctx1) defName of
                    Some existing \<Rightarrow> ctx1
                  | None \<Rightarrow>
                      ctx1\<lparr>definitions := AList.update defName
                        (PropertyDefinition ''object'' (FieldName (Field info)) '''' required
                           None nested '''')
                        (definitions ctx1)\<rparr>)
      in (PropertyDefinition '''' (FieldName (Field info)) '''' [] None [] (''#/$defs/'' @ defName),
          ctx2))"

definition buildArrayProperty :: "fieldInfo \<Rightarrow> properties \<Rightarrow> string list \<Rightarrow> PropertyDefinition" where
  "buildArrayProperty info nested required =
     (let sliceTypeName = (if length nested > 0 then ''object'' else SliceType info);
          items = PropertyDefinition sliceTypeName (FieldName (Field info)) (SliceFormat info)
                    required None nested ''''
      in PropertyDefinition typeArray (FieldName (Field info)) (InfoFormat info) required
           (Some items) [] '''')"

definition buildObjectProperty :: "fieldInfo \<Rightarrow> properties \<Rightarrow> string list \<Rightarrow> PropertyDefinition" where
  "buildObjectProperty info nested required =
     (let typeName = (if length nested > 0 \<and> TypeName info \<noteq> typeArray
                      then ''object'' else TypeName info)
      in PropertyDefinition typeName (FieldName (Field info)) (InfoFormat info) required
           None nested '''')"

section \<open>The walk\<close>

text \<open>
  \<open>buildProperties\<close>, \<open>reflectStruct\<close> and \<open>buildFieldProperty\<close> call each other, and
  nothing in their arguments gets smaller on a cyclic type graph. The model counts the
  nesting of \<open>buildProperties\<close> calls down from a budget and answers \<open>None\<close> when it is
  used up; that a budget of the size of the type table plus three is never used up is
  proved below. The context is passed in and returned.

  In \<open>buildProperties\<close> the slice and pointer cases declare a new \<open>t\<close> for the struct
  they reach, so the \<open>t\<close> handed to \<open>GenerateRequired\<close> after the switch is the
  argument itself, except that the pointer case first assigns the slice to it when the
  pointer leads to a slice of structs.

  \<open>buildFieldProperty\<close> receives \<open>nestedCounter\<close> by value: its increment reaches the
  nested call, its reset to zero afterwards is a store to a local that is not read again.
\<close>

function (sequential) buildProperties ::
    "nat \<Rightarrow> typeTable \<Rightarrow> schemaContext \<Rightarrow> nat \<Rightarrow> nat
       \<Rightarrow> ((properties \<times> string list) \<times> schemaContext) option"
  and reflectFields ::
    "nat \<Rightarrow> typeTable \<Rightarrow> schemaContext \<Rightarrow> StructField list \<Rightarrow> nat \<Rightarrow> properties
       \<Rightarrow> (properties \<times> schemaContext) option"
  and buildFieldProperty ::
    "nat \<Rightarrow> typeTable \<Rightarrow> schemaContext \<Rightarrow> fieldInfo \<Rightarrow> nat
       \<Rightarrow> (PropertyDefinition \<times> schemaContext) option"
where
  "buildProperties 0 env ctx t nestedCounter = None"
| "buildProperties (Suc n) env ctx t nestedCounter =
     (if Kind env t = KSlice then
        (let t1 = Elem env t;
             t1 = (if Kind env t1 = KPointer then Elem env t1 else t1)
         in if Kind env t1 \<noteq> KStruct then Some (([], GenerateRequired env None (Some t)), ctx)
            else if t1 \<in> visited ctx \<and> nestedCounter > 1
            then Some (([], GenerateRequired env None (Some t)), ctx)
            else (case reflectFields n env (ctx\<lparr>visited := insert t1 (visited ctx)\<rparr>)
                         (Fields env t1) nestedCounter [] of
                    None \<Rightarrow> None
                  | Some (properties, ctx') \<Rightarrow>
                      Some ((properties, GenerateRequired env None (Some t)), ctx')))
      else if Kind env t = KStruct then
        (if t \<in> visited ctx \<and> nestedCounter > 1
         then Some (([], GenerateRequired env None (Some t)), ctx)
         else (case reflectFields n env (ctx\<lparr>visited := insert t (visited ctx)\<rparr>)
                      (Fields env t) nestedCounter [] of
                 None \<Rightarrow> None
               | Some (properties, ctx') \<Rightarrow>
                   Some ((properties, GenerateRequired env None (Some t)), ctx')))
      else if Kind env t = KPointer then
        (let t0 = (if Kind env (Elem env t) = KSlice \<and> Kind env (Elem env (Elem env t)) = KStruct
                   then Elem env t else t)
         in if Kind env (Elem env t0) \<noteq> KStruct
            then Some (([], GenerateRequired env None (Some t0)), ctx)
            else
              (let t1 = Elem env t0
               in if t1 \<in> visited ctx \<and> nestedCounter > 1
                  then Some (([], GenerateRequired env None (Some t0)), ctx)
                  else (case reflectFields n env (ctx\<lparr>visited := insert t1 (visited ctx)\<rparr>)
                               (Fields env t1) nestedCounter [] of
                          None \<Rightarrow> None
                        | Some (properties, ctx') \<Rightarrow>
                            Some ((properties, GenerateRequired env None (Some t0)), ctx'))))
      else Some (([], GenerateRequired env None (Some t)), ctx))"
| "reflectFields n env ctx [] nestedCounter properties = Some (properties, ctx)"
| "reflectFields n env ctx (field # rest) nestedCounter properties =
     (let info = extractFieldInfo env field
      in if TagName info = ''-'' \<or> TagName info = ''''
         then reflectFields n env ctx rest nestedCounter properties
         else (case buildFieldProperty n env ctx info nestedCounter of
                 None \<Rightarrow> None
               | Some (property, ctx') \<Rightarrow>
                   reflectFields n env ctx' rest nestedCounter
                     (AList.update (TagName info) property properties)))"
| "buildFieldProperty n env ctx info nestedCounter =
     (case (if \<not> SkipNested info
            then buildProperties n env ctx (FieldType (Field info)) (nestedCounter + 1)
            else Some (([], []), ctx)) of
        None \<Rightarrow> None
      | Some ((nested, required), ctx') \<Rightarrow>
          if shouldUseDefinition env (FieldType (Field info)) nested
          then Some (createDefinitionReference env ctx' info nested required)
          else if IsArray info
          then Some (buildArrayProperty info nested required, ctx')
          else Some (buildObjectProperty info nested required, ctx'))"
  by pat_completeness auto
termination
  by (relation "inv_image (less_than <*lex*> less_than <*lex*> less_than)
        (\<lambda>x. case x of
            Inl (n, env, ctx, t, c) \<Rightarrow> (n, 0::nat, 0::nat)
          | Inr (Inl (n, env, ctx, fs, c, ps)) \<Rightarrow> (n, 2, length fs)
          | Inr (Inr (n, env, ctx, info, c)) \<Rightarrow> (n, 1, 0))") auto

declare buildProperties.simps [simp del] buildFieldProperty.simps [simp del]

text \<open>\<open>reflectStruct\<close>: the loop over the fields of \<open>t\<close>, starting from an empty mapping.\<close>

definition reflectStruct ::
    "nat \<Rightarrow> typeTable \<Rightarrow> schemaContext \<Rightarrow> nat \<Rightarrow> nat \<Rightarrow> (properties \<times> schemaContext) option" where
  "reflectStruct n env ctx t nestedCounter = reflectFields n env ctx (Fields env t) nestedCounter []"

section \<open>Entry points\<close>

datatype error = NilPointerDereference

text \<open>
  \<open>GenerateProperties(object)\<close>: \<open>object\<close> is given by its dynamic type, \<open>None\<close> for a
  nil interface value, on which \<open>t.Kind()\<close> in \<open>buildProperties\<close> panics. The outer
  \<open>option\<close> is the budget of the walk.
\<close>

definition GenerateProperties :: "nat \<Rightarrow> typeTable \<Rightarrow> nat option \<Rightarrow> (error + properties) option" where
  "GenerateProperties n env object =
     (case object of
        None \<Rightarrow> Some (Inl NilPointerDereference)
      | Some t \<Rightarrow>
          (case buildProperties n env newContext t 0 of
             None \<Rightarrow> None
           | Some ((properties, required), ctx) \<Rightarrow> Some (Inr properties)))"

definition GenerateSchema ::
    "nat \<Rightarrow> typeTable \<Rightarrow> nat option \<Rightarrow> string \<Rightarrow> string \<Rightarrow> (error + Schema) option" where
  "GenerateSchema n env object title schemaURL =
     (case object of
        None \<Rightarrow> Some (Inl NilPointerDereference)
      | Some t \<Rightarrow>
          (case buildProperties n env newContext t 0 of
             None \<Rightarrow> None
           | Some ((properties, required), ctx) \<Rightarrow>
               Some (Inr \<lparr>SchemaURL = schemaURL, Title = title, SchemaType = ''object'',
                          SchemaRequired = GenerateRequired env object None,
                          SchemaProperties = properties,
                          Definitions = definitions ctx\<rparr>)))"

section \<open>Notions of the specification\<close>

text \<open>
  The external key of a field, as both traversals resolve it: the name part of the tag,
  or the case-converted identifier when that part is empty.
\<close>

definition externalKey :: "StructField \<Rightarrow> string" where
  "externalKey field =
     (if hd (splitComma (FieldTag field)) = '''' then toSnakeCase (FieldName field)
      else hd (splitComma (FieldTag field)))"

text \<open>The omit-if-empty marker, as \<open>GenerateRequired\<close> looks for it in the tag options.\<close>

definition omitMarker :: "StructField \<Rightarrow> bool" where
  "omitMarker field = contains (joinComma (tl (splitComma (FieldTag field)))) ''omitempty''"

text \<open>The skip test of \<open>GenerateRequired\<close>: the whole tag is the sentinel.\<close>

definition skippedField :: "StructField \<Rightarrow> bool" where
  "skippedField field = (FieldTag field = ''-'')"

definition sequenceShaped :: "typeTable \<Rightarrow> StructField \<Rightarrow> bool" where
  "sequenceShaped env field = (Kind env (FieldType field) = KSlice)"

definition pointerShaped :: "typeTable \<Rightarrow> StructField \<Rightarrow> bool" where
  "pointerShaped env field = (Kind env (FieldType field) = KPointer)"

text \<open>
  The rule for required fields in the words of the specification: not skipped, not
  sequence-shaped, not a non-pointer field with an omit marker; or a pointer field whose
  external key is \<open>tags\<close>.
\<close>

definition requiredAsSpecified :: "typeTable \<Rightarrow> StructField \<Rightarrow> bool" where
  "requiredAsSpecified env field =
     ((\<not> skippedField field \<and> \<not> sequenceShaped env field
        \<and> \<not> (\<not> pointerShaped env field \<and> omitMarker field))
      \<or> (pointerShaped env field \<and> externalKey field = ''tags''))"

text \<open>
  The rule that the loop of \<open>GenerateRequired\<close> applies: a pointer field counts only
  when the name part of its tag is \<open>tags\<close>, any other field when it has no omit marker.
\<close>

definition requiredField :: "typeTable \<Rightarrow> StructField \<Rightarrow> bool" where
  "requiredField env field =
     (\<not> skippedField field \<and> \<not> sequenceShaped env field
      \<and> (if pointerShaped env field then hd (splitComma (FieldTag field)) = ''tags''
         else \<not> omitMarker field))"


text \<open>
  A field is a sequence for the walk when its type is a slice or a pointer to a slice.
  The empty interface is printed by reflect as \<open>interface {}\<close>; the source also tests
  for the spelling without the blank. A raw byte blob is printed as \<open>[]uint8\<close>; the
  source also tests for \<open>[]byte\<close>.
\<close>

definition sequenceField :: "typeTable \<Rightarrow> StructField \<Rightarrow> bool" where
  "sequenceField env field =
     (Kind env (FieldType field) = KSlice
      \<or> (Kind env (FieldType field) = KPointer \<and> Kind env (Elem env (FieldType field)) = KSlice))"

definition anyField :: "typeTable \<Rightarrow> StructField \<Rightarrow> bool" where
  "anyField env field =
     (Kind env (FieldType field) = KInterface
      \<and> (TypeString env (FieldType field) = ''interface {}''
         \<or> TypeString env (FieldType field) = ''interface{}''))"

definition byteBlobField :: "typeTable \<Rightarrow> StructField \<Rightarrow> bool" where
  "byteBlobField env field =
     (TypeString env (FieldType field) = ''[]byte'' \<or> TypeString env (FieldType field) = ''[]uint8'')"

text \<open>The struct types of a table, and how many of them a context has not visited.\<close>

definition structTypes :: "typeTable \<Rightarrow> nat set" where
  "structTypes env = {t. t < length env \<and> Kind env t = KStruct}"

definition unvisited :: "typeTable \<Rightarrow> schemaContext \<Rightarrow> nat" where
  "unvisited env ctx = card (structTypes env - visited ctx)"

section \<open>Example types\<close>

definition mkField :: "string \<Rightarrow> string \<Rightarrow> nat \<Rightarrow> StructField" where
  "mkField name tag t = \<lparr>FieldName = name, FieldTag = tag, FieldType = t\<rparr>"

definition mkType :: "kind \<Rightarrow> string \<Rightarrow> string \<Rightarrow> nat \<Rightarrow> StructField list \<Rightarrow> rtype" where
  "mkType k s name e fs = \<lparr>tKind = k, tString = s, tName = name, tElem = e, tFields = fs\<rparr>"

text \<open>
  A table in the style of the types of the repository's tests:
  \<^verbatim>\<open>
   0 int          1 string        2 *string       3 []string
   4 uint8        5 []uint8       6 interface {}
   7 EventTags       struct { EventName string `json:"event_name"`
                              EventVersion string `json:"event_version"`
                              EventID string `json:"event_id"` }
   8 RecursiveStruct struct { Name string `json:"name"`
                              Children []RecursiveStruct `json:"children,omitempty"` }
   9 []RecursiveStruct
  10 EdgeCase        struct { InterfaceField any `json:"interface_field"`
                              ByteSlice []byte `json:"byte_slice"`
                              SkippedField string `json:"-"` }
  11 Mid             struct { A EventTags `json:"a"`; B EventTags `json:"b"` }
  12 Root            struct { M Mid `json:"m"` }
  13 Pair            struct { First EventTags `json:"first"`; Second EventTags `json:"second"` }
  14 *EventTags
  15 Holder          struct { P *EventTags `json:"p"`; Q *string `json:"q"`; Tags *string }
  16 []EventTags
  17 Dash            struct { Dash string `json:"-,"` }
  \<close>
\<close>

definition exampleTypes :: typeTable where
  "exampleTypes =
    [mkType KInt ''int'' ''int'' 0 [],
     mkType KString ''string'' ''string'' 0 [],
     mkType KPointer ''*string'' '''' 1 [],
     mkType KSlice ''[]string'' '''' 1 [],
     mkType KUint8 ''uint8'' ''uint8'' 0 [],
     mkType KSlice ''[]uint8'' '''' 4 [],
     mkType KInterface ''interface {}'' '''' 0 [],
     mkType KStruct ''schematic.EventTags'' ''EventTags'' 0
       [mkField ''EventName'' ''event_name'' 1,
        mkField ''EventVersion'' ''event_version'' 1,
        mkField ''EventID'' ''event_id'' 1],
     mkType KStruct ''schematic.RecursiveStruct'' ''RecursiveStruct'' 0
       [mkField ''Name'' ''name'' 1,
        mkField ''Children'' ''children,omitempty'' 9],
     mkType KSlice ''[]schematic.RecursiveStruct'' '''' 8 [],
     mkType KStruct ''schematic.EdgeCase'' ''EdgeCase'' 0
       [mkField ''InterfaceField'' ''interface_field'' 6,
        mkField ''ByteSlice'' ''byte_slice'' 5,
        mkField ''SkippedField'' ''-'' 1],
     mkType KStruct ''schematic.Mid'' ''Mid'' 0
       [mkField ''A'' ''a'' 7, mkField ''B'' ''b'' 7],
     mkType KStruct ''schematic.Root'' ''Root'' 0
       [mkField ''M'' ''m'' 11],
     mkType KStruct ''schematic.Pair'' ''Pair'' 0
       [mkField ''First'' ''first'' 7, mkField ''Second'' ''second'' 7],
     mkType KPointer ''*schematic.EventTags'' '''' 7 [],
     mkType KStruct ''schematic.Holder'' ''Holder'' 0
       [mkField ''P'' ''p'' 14, mkField ''Q'' ''q'' 2, mkField ''Tags'' '''' 2],
     mkType KSlice ''[]schematic.EventTags'' '''' 7 [],
     mkType KStruct ''schematic.Dash'' ''Dash'' 0
       [mkField ''Dash'' ''-,'' 1]]"

section \<open>Verification\<close>

section \<open>Case conversion and external keys\<close>






section \<open>The required set\<close>

lemma requiredLoop_filter:
  "requiredLoop env fs acc = acc @ map externalKey (filter (requiredField env) fs)"
proof (induction fs arbitrary: acc)
  case Nil
  show ?case by simp
next
  case (Cons f fs)
  show ?case
    by (simp add: Cons.IH Let_def requiredField_def skippedField_def sequenceShaped_def
        pointerShaped_def omitMarker_def externalKey_def)
qed

lemma GenerateRequired_struct:
  assumes "Kind env t = KStruct"
  shows "GenerateRequired env object (Some t) = map externalKey (filter (requiredField env) (Fields env t))"
    and "GenerateRequired env (Some t) None = map externalKey (filter (requiredField env) (Fields env t))"
  using assms by (simp_all add: GenerateRequired_def requiredLoop_filter)

lemma key_in_required_iff:
  assumes d: "distinct (map externalKey fs)" and f: "f \<in> set fs"
  shows "externalKey f \<in> set (map externalKey (filter (requiredField env) fs)) \<longleftrightarrow> requiredField env f"
proof
  assume "externalKey f \<in> set (map externalKey (filter (requiredField env) fs))"
  then obtain g where g: "g \<in> set fs" "requiredField env g" "externalKey g = externalKey f"
    by auto
  from d g(1) f g(3) have "g = f"
    by (meson distinct_map inj_onD)
  with g(2) show "requiredField env f" by simp
next
  assume "requiredField env f"
  with f show "externalKey f \<in> set (map externalKey (filter (requiredField env) fs))"
    by auto
qed

text \<open>
  Claim C1, as the code has it. For a struct type, \<open>GenerateRequired\<close> returns the
  external keys, in declaration order, of exactly the fields that are not skipped, not
  sequence-shaped, and either not pointer-shaped and without an omit-if-empty marker, or
  pointer-shaped with the name part of the tag equal to \<open>tags\<close>. When the fields have
  distinct external keys, a field's key is in the required set if and only if that holds
  of the field. The nested call of the walk and the root call agree.
\<close>

theorem C1_required_rule:
  assumes "Kind env t = KStruct"
  shows "GenerateRequired env (Some t) None
           = map externalKey (filter (requiredField env) (Fields env t))
       \<and> GenerateRequired env object (Some t) = GenerateRequired env (Some t) None
       \<and> (distinct (map externalKey (Fields env t)) \<longrightarrow>
            (\<forall>field \<in> set (Fields env t).
               externalKey field \<in> set (GenerateRequired env (Some t) None)
                 \<longleftrightarrow> requiredField env field))"
proof -
  have a: "GenerateRequired env (Some t) None
             = map externalKey (filter (requiredField env) (Fields env t))"
    by (rule GenerateRequired_struct(2) [OF assms])
  have b: "GenerateRequired env object (Some t) = GenerateRequired env (Some t) None"
    by (simp only: GenerateRequired_struct [OF assms])
  have c: "distinct (map externalKey (Fields env t)) \<longrightarrow>
            (\<forall>field \<in> set (Fields env t).
               externalKey field \<in> set (GenerateRequired env (Some t) None)
                 \<longleftrightarrow> requiredField env field)"
    unfolding a using key_in_required_iff by blast
  from a b c show ?thesis by blast
qed

text \<open>
  The rule at the struct \<open>EdgeCase\<close> of the example table: the opaque field is
  required, the byte blob (a slice) and the skipped field are not.
\<close>

theorem C1_required_rule_witness:
  "Kind exampleTypes 10 = KStruct
   \<and> distinct (map externalKey (Fields exampleTypes 10))
   \<and> GenerateRequired exampleTypes (Some 10) None = [''interface_field'']
   \<and> requiredField exampleTypes (mkField ''InterfaceField'' ''interface_field'' 6)
   \<and> \<not> requiredField exampleTypes (mkField ''ByteSlice'' ''byte_slice'' 5)
   \<and> \<not> requiredField exampleTypes (mkField ''SkippedField'' ''-'' 1)"
proof -
  have k: "Kind exampleTypes 10 = KStruct" by code_simp
  have d: "distinct (map externalKey (Fields exampleTypes 10))" by code_simp
  have r: "GenerateRequired exampleTypes (Some 10) None = [''interface_field'']" by code_simp
  have m: "mkField ''InterfaceField'' ''interface_field'' 6 \<in> set (Fields exampleTypes 10)"
    "mkField ''ByteSlice'' ''byte_slice'' 5 \<in> set (Fields exampleTypes 10)"
    "mkField ''SkippedField'' ''-'' 1 \<in> set (Fields exampleTypes 10)"
    by code_simp+
  have e: "externalKey (mkField ''InterfaceField'' ''interface_field'' 6)
             \<in> set (GenerateRequired exampleTypes (Some 10) None)"
    "externalKey (mkField ''ByteSlice'' ''byte_slice'' 5)
             \<notin> set (GenerateRequired exampleTypes (Some 10) None)"
    "externalKey (mkField ''SkippedField'' ''-'' 1)
             \<notin> set (GenerateRequired exampleTypes (Some 10) None)"
    by code_simp+
  from C1_required_rule [OF k, of None] d k r m e show ?thesis by blast
qed

text \<open>
  The rule as the specification words it fails on pointer fields. In \<open>Holder\<close> the field
  \<open>Q *string `json:"q"`\<close> is not skipped, not a sequence and not a non-pointer field
  with an omit marker, and the untagged field \<open>Tags *string\<close> is a pointer field with
  external key \<open>tags\<close>; neither key is in the required set.
\<close>

theorem C1_counterexample:
  "mkField ''Q'' ''q'' 2 \<in> set (Fields exampleTypes 15)
   \<and> requiredAsSpecified exampleTypes (mkField ''Q'' ''q'' 2)
   \<and> externalKey (mkField ''Q'' ''q'' 2) \<notin> set (GenerateRequired exampleTypes (Some 15) None)
   \<and> mkField ''Tags'' [] 2 \<in> set (Fields exampleTypes 15)
   \<and> pointerShaped exampleTypes (mkField ''Tags'' [] 2)
   \<and> externalKey (mkField ''Tags'' [] 2) = ''tags''
   \<and> externalKey (mkField ''Tags'' [] 2) \<notin> set (GenerateRequired exampleTypes (Some 15) None)"
  by code_simp

text \<open>
  Claim C5 at the struct \<open>Dash\<close>, whose only field is tagged \<open>json:"-,"\<close>.
  \<open>GenerateRequired\<close> compares the whole tag with the sentinel and so keeps the field,
  under the key \<open>-\<close>; the walk compares the name part of the tag and so skips it. The
  required set is not a subset of the keys of the property mapping.
\<close>

theorem C5_required_key_without_property:
  "GenerateRequired exampleTypes (Some 17) None = [''-'']
   \<and> GenerateProperties 21 exampleTypes (Some 17) = Some (Inr [])"
  by code_simp

section \<open>Field classification\<close>

lemma buildFieldProperty_terminal:
  "SkipNested info \<Longrightarrow> \<not> IsArray info \<Longrightarrow>
   buildFieldProperty n env ctx info c = Some (buildObjectProperty info [] [], ctx)"
  by (simp add: buildFieldProperty.simps shouldUseDefinition_def)

lemma extractFieldInfo_not_skipped:
  "hd (splitComma (FieldTag field)) \<noteq> ''-'' \<Longrightarrow>
   extractFieldInfo env field = analyzeFieldType env (newFieldInfo field (externalKey field))"
  by (simp add: extractFieldInfo_def externalKey_def Let_def)

text \<open>
  Claim C6. A field whose type is printed as \<open>[]byte\<close> or \<open>[]uint8\<close>, unless it is
  skipped, is emitted as the property of type \<open>string\<close> with format \<open>byte\<close>, without
  items and without nested properties, whatever the kind of the type: the test on the
  printed type comes before the dispatch on the kind, so the property is not array-typed.
\<close>

theorem C6_byte_blob_is_string:
  assumes "byteBlobField env field" and "hd (splitComma (FieldTag field)) \<noteq> ''-''"
  shows "\<exists>p. buildFieldProperty n env ctx (extractFieldInfo env field) c = Some (p, ctx)
           \<and> p = PropertyDefinition ''string'' (FieldName field) ''byte'' [] None [] []
           \<and> Type p \<noteq> typeArray"
proof -
  have "extractFieldInfo env field
          = (newFieldInfo field (externalKey field))
              \<lparr>TypeName := ''string'', InfoFormat := ''byte'', SkipNested := True, IsArray := False\<rparr>"
    using assms
    by (auto simp add: extractFieldInfo_not_skipped analyzeFieldType_def byteBlobField_def
        newFieldInfo_def Let_def)
  then show ?thesis
    by (simp add: buildFieldProperty_terminal buildObjectProperty_def newFieldInfo_def typeArray_def)
qed

text \<open>The field \<open>ByteSlice []byte\<close> of the example table.\<close>

theorem C6_byte_blob_is_string_witness:
  "byteBlobField exampleTypes (mkField ''ByteSlice'' ''byte_slice'' 5)
   \<and> hd (splitComma (FieldTag (mkField ''ByteSlice'' ''byte_slice'' 5))) \<noteq> ''-''
   \<and> buildFieldProperty 0 exampleTypes newContext
         (extractFieldInfo exampleTypes (mkField ''ByteSlice'' ''byte_slice'' 5)) 1
       = Some (PropertyDefinition ''string'' ''ByteSlice'' ''byte'' [] None [] [], newContext)"
proof -
  have a: "byteBlobField exampleTypes (mkField ''ByteSlice'' ''byte_slice'' 5)" by code_simp
  have b: "hd (splitComma (FieldTag (mkField ''ByteSlice'' ''byte_slice'' 5))) \<noteq> ''-''" by code_simp
  have n: "FieldName (mkField ''ByteSlice'' ''byte_slice'' 5) = ''ByteSlice''" by (simp add: mkField_def)
  from C6_byte_blob_is_string [OF a b, of 0 newContext 1] a b n show ?thesis by simp
qed

section \<open>Opaque fields\<close>

lemma convert_any:
  "Kind env t = KInterface \<Longrightarrow> s = ''interface {}'' \<or> s = ''interface{}'' \<Longrightarrow>
   convertToEventName env s (Some t) = ([], [], True)"
proof -
  assume k: "Kind env t = KInterface" and s: "s = ''interface {}'' \<or> s = ''interface{}''"
  have a: "convertToEventName env ''interface{}'' (Some t) = ([], [], True)"
    by (subst convertToEventName.simps) simp
  have m: "map_of typeMapping ''interface {}'' = None"
    by code_simp
  have b: "convertToEventName env ''interface {}'' (Some t) = ([], [], True)"
    by (subst convertToEventName.simps) (simp add: m k)
  from s a b show ?thesis by blast
qed

lemma extractFieldInfo_any:
  assumes "anyField env field" and "hd (splitComma (FieldTag field)) \<noteq> ''-''"
  shows "extractFieldInfo env field
           = (newFieldInfo field (externalKey field))\<lparr>SkipNested := True\<rparr>"
  using assms
  by (auto simp add: extractFieldInfo_not_skipped analyzeFieldType_def anyField_def
      newFieldInfo_def Let_def convert_any)

text \<open>
  Claim C8, as the code has it. A field of the empty interface type, unless it is
  skipped, is emitted as a property with empty type and empty format (and nothing else
  but its documentation label). \<open>GenerateRequired\<close> treats it like any other field
  that is neither a pointer nor a sequence: its key is in the required set if and only
  if the field is not skipped and has no omit-if-empty marker.
\<close>

theorem C8_any_field:
  assumes "anyField env field"
  shows "(hd (splitComma (FieldTag field)) \<noteq> ''-'' \<longrightarrow>
            (\<exists>p. buildFieldProperty n env ctx (extractFieldInfo env field) c = Some (p, ctx)
                 \<and> Type p = [] \<and> Format p = []
                 \<and> p = PropertyDefinition [] (FieldName field) [] [] None [] []))
       \<and> (requiredField env field \<longleftrightarrow> \<not> skippedField field \<and> \<not> omitMarker field)
       \<and> (Kind env t = KStruct \<and> field \<in> set (Fields env t)
            \<and> distinct (map externalKey (Fields env t)) \<longrightarrow>
            (externalKey field \<in> set (GenerateRequired env (Some t) None)
               \<longleftrightarrow> \<not> skippedField field \<and> \<not> omitMarker field))"
proof -
  have a: "hd (splitComma (FieldTag field)) \<noteq> ''-'' \<longrightarrow>
            (\<exists>p. buildFieldProperty n env ctx (extractFieldInfo env field) c = Some (p, ctx)
                 \<and> Type p = [] \<and> Format p = []
                 \<and> p = PropertyDefinition [] (FieldName field) [] [] None [] [])"
    by (simp add: extractFieldInfo_any [OF assms] buildFieldProperty_terminal
        buildObjectProperty_def newFieldInfo_def)
  have b: "requiredField env field \<longleftrightarrow> \<not> skippedField field \<and> \<not> omitMarker field"
    using assms by (simp add: requiredField_def anyField_def sequenceShaped_def pointerShaped_def)
  have c: "Kind env t = KStruct \<and> field \<in> set (Fields env t)
            \<and> distinct (map externalKey (Fields env t)) \<longrightarrow>
            (externalKey field \<in> set (GenerateRequired env (Some t) None)
               \<longleftrightarrow> \<not> skippedField field \<and> \<not> omitMarker field)"
  proof (intro impI, elim conjE)
    assume k: "Kind env t = KStruct" and f: "field \<in> set (Fields env t)"
      and d: "distinct (map externalKey (Fields env t))"
    show "externalKey field \<in> set (GenerateRequired env (Some t) None)
            \<longleftrightarrow> \<not> skippedField field \<and> \<not> omitMarker field"
      unfolding GenerateRequired_struct(2) [OF k] key_in_required_iff [OF d f] by (rule b)
  qed
  from a b c show ?thesis by blast
qed

text \<open>The field \<open>InterfaceField any\<close> of \<open>EdgeCase\<close> in the example table.\<close>

theorem C8_any_field_witness:
  "anyField exampleTypes (mkField ''InterfaceField'' ''interface_field'' 6)
   \<and> buildFieldProperty 0 exampleTypes newContext
        (extractFieldInfo exampleTypes (mkField ''InterfaceField'' ''interface_field'' 6)) 1
       = Some (PropertyDefinition [] ''InterfaceField'' [] [] None [] [], newContext)
   \<and> requiredField exampleTypes (mkField ''InterfaceField'' ''interface_field'' 6)"
proof -
  have a: "anyField exampleTypes (mkField ''InterfaceField'' ''interface_field'' 6)" by code_simp
  have b: "hd (splitComma (FieldTag (mkField ''InterfaceField'' ''interface_field'' 6))) \<noteq> ''-''"
    by code_simp
  have c: "\<not> skippedField (mkField ''InterfaceField'' ''interface_field'' 6)
           \<and> \<not> omitMarker (mkField ''InterfaceField'' ''interface_field'' 6)" by code_simp
  have n: "FieldName (mkField ''InterfaceField'' ''interface_field'' 6) = ''InterfaceField''"
    by (simp add: mkField_def)
  from C8_any_field [OF a, of 0 newContext 1 10] a b c n show ?thesis by simp
qed

text \<open>
  The key of that field is in the required set of \<open>EdgeCase\<close>, against the claim that
  the key of an opaque field never is.
\<close>

theorem C8_counterexample:
  "anyField exampleTypes (mkField ''InterfaceField'' ''interface_field'' 6)
   \<and> mkField ''InterfaceField'' ''interface_field'' 6 \<in> set (Fields exampleTypes 10)
   \<and> externalKey (mkField ''InterfaceField'' ''interface_field'' 6) = ''interface_field''
   \<and> GenerateRequired exampleTypes (Some 10) None = [''interface_field'']"
  by code_simp

section \<open>Degenerate roots\<close>

text \<open>
  Claim C9, as the code has it. \<open>GenerateRequired\<close> returns the empty list for a nil
  root and for every root that is neither a struct nor a pointer to a struct.
  \<open>GenerateProperties\<close> returns the empty mapping, with a budget of one call, for
  every non-nil root that is not a struct and does not reach a struct through a slice
  (of structs or of pointers to structs), a pointer, or a pointer to a slice of structs.
\<close>

theorem C9_degenerate_roots:
  "GenerateRequired env None None = []
   \<and> (Kind env t \<noteq> KStruct \<and> \<not> (Kind env t = KPointer \<and> Kind env (Elem env t) = KStruct)
        \<longrightarrow> GenerateRequired env (Some t) None = [])
   \<and> (Kind env t \<noteq> KStruct
       \<and> \<not> (Kind env t = KSlice
             \<and> Kind env (if Kind env (Elem env t) = KPointer then Elem env (Elem env t)
                         else Elem env t) = KStruct)
       \<and> \<not> (Kind env t = KPointer
             \<and> (Kind env (Elem env t) = KStruct
                \<or> (Kind env (Elem env t) = KSlice \<and> Kind env (Elem env (Elem env t)) = KStruct)))
        \<longrightarrow> GenerateProperties (Suc n) env (Some t) = Some (Inr []))"
proof -
  have a: "GenerateRequired env None None = []"
    by (simp add: GenerateRequired_def)
  have b: "Kind env t \<noteq> KStruct \<and> \<not> (Kind env t = KPointer \<and> Kind env (Elem env t) = KStruct)
        \<longrightarrow> GenerateRequired env (Some t) None = []"
    by (simp add: GenerateRequired_def Let_def)
  have c: "Kind env t \<noteq> KStruct
       \<and> \<not> (Kind env t = KSlice
             \<and> Kind env (if Kind env (Elem env t) = KPointer then Elem env (Elem env t)
                         else Elem env t) = KStruct)
       \<and> \<not> (Kind env t = KPointer
             \<and> (Kind env (Elem env t) = KStruct
                \<or> (Kind env (Elem env t) = KSlice \<and> Kind env (Elem env (Elem env t)) = KStruct)))
        \<longrightarrow> GenerateProperties (Suc n) env (Some t) = Some (Inr [])"
    by (auto simp add: GenerateProperties_def buildProperties.simps Let_def)
  from a b c show ?thesis by blast
qed

text \<open>The root \<open>[]string\<close> of the example table.\<close>

theorem C9_degenerate_roots_witness:
  "Kind exampleTypes 3 \<noteq> KStruct
   \<and> GenerateRequired exampleTypes (Some 3) None = []
   \<and> GenerateProperties (Suc 0) exampleTypes (Some 3) = Some (Inr [])"
proof -
  have h: "Kind exampleTypes 3 \<noteq> KStruct
       \<and> \<not> (Kind exampleTypes 3 = KSlice
             \<and> Kind exampleTypes (if Kind exampleTypes (Elem exampleTypes 3) = KPointer
                   then Elem exampleTypes (Elem exampleTypes 3)
                   else Elem exampleTypes 3) = KStruct)
       \<and> \<not> (Kind exampleTypes 3 = KPointer
             \<and> (Kind exampleTypes (Elem exampleTypes 3) = KStruct
                \<or> (Kind exampleTypes (Elem exampleTypes 3) = KSlice
                    \<and> Kind exampleTypes (Elem exampleTypes (Elem exampleTypes 3)) = KStruct)))"
    by code_simp
  from C9_degenerate_roots [of exampleTypes 3 0] h show ?thesis by blast
qed

text \<open>
  A root of type \<open>[]EventTags\<close> is not a composite, and \<open>GenerateProperties\<close>
  returns the three properties of \<open>EventTags\<close> for it; on a nil root it dereferences
  the nil type.
\<close>

theorem C9_counterexample:
  "Kind exampleTypes 16 = KSlice
   \<and> GenerateProperties 21 exampleTypes (Some 16)
       = Some (Inr [(''event_name'', PropertyDefinition ''string'' ''EventName'' [] [] None [] []),
                    (''event_version'', PropertyDefinition ''string'' ''EventVersion'' [] [] None [] []),
                    (''event_id'', PropertyDefinition ''string'' ''EventID'' [] [] None [] [])])
   \<and> GenerateProperties 21 exampleTypes None = Some (Inl NilPointerDereference)"
  by code_simp

section \<open>Definitions and references\<close>

lemma visited_createDefinitionReference [simp]:
  "visited (snd (createDefinitionReference env ctx info nested required)) = visited ctx"
  by (simp add: createDefinitionReference_def Let_def split: option.splits)

text \<open>
  Claim C10. When the type of a field is not of kind struct (a pointer, and a pointer to
  a struct, in particular), the property built for the field is not a reference node,
  and the field adds nothing to the context: the context after it is the one the nested
  walk of its type left, or the one before it when the field is terminal. So only a
  field whose kind is struct can be hoisted, however many nested properties it has.
\<close>

theorem C10_only_struct_fields_are_hoisted:
  assumes "Kind env (FieldType (Field info)) \<noteq> KStruct"
    and "buildFieldProperty n env ctx info c = Some (p, ctx')"
  shows "Ref p = []
       \<and> (if SkipNested info then ctx' = ctx
          else \<exists>r. buildProperties n env ctx (FieldType (Field info)) (c + 1) = Some (r, ctx'))"
  using assms
  by (auto simp add: buildFieldProperty.simps shouldUseDefinition_def buildArrayProperty_def
      buildObjectProperty_def Let_def split: option.splits if_splits)

text \<open>
  The field \<open>P *EventTags\<close> of \<open>Holder\<close>: three nested properties, inlined, and an
  empty definitions table.
\<close>

theorem C10_only_struct_fields_are_hoisted_witness:
  "Kind exampleTypes (FieldType (Field (extractFieldInfo exampleTypes (mkField ''P'' ''p'' 14)))) \<noteq> KStruct
   \<and> buildFieldProperty 3 exampleTypes newContext
          (extractFieldInfo exampleTypes (mkField ''P'' ''p'' 14)) 0
        = Some (PropertyDefinition ''object'' ''P'' []
                 [''event_name'', ''event_version'', ''event_id''] None
                 [(''event_name'', PropertyDefinition ''string'' ''EventName'' [] [] None [] []),
                  (''event_version'', PropertyDefinition ''string'' ''EventVersion'' [] [] None [] []),
                  (''event_id'', PropertyDefinition ''string'' ''EventID'' [] [] None [] [])] [],
                \<lparr>visited = {7}, definitions = [], counter = 0\<rparr>)
   \<and> Ref (PropertyDefinition ''object'' ''P'' []
                 [''event_name'', ''event_version'', ''event_id''] None
                 [(''event_name'', PropertyDefinition ''string'' ''EventName'' [] [] None [] []),
                  (''event_version'', PropertyDefinition ''string'' ''EventVersion'' [] [] None [] []),
                  (''event_id'', PropertyDefinition ''string'' ''EventID'' [] [] None [] [])] []) = []"
proof -
  have k: "Kind exampleTypes (FieldType (Field (extractFieldInfo exampleTypes (mkField ''P'' ''p'' 14)))) \<noteq> KStruct"
    by code_simp
  have e: "buildFieldProperty 3 exampleTypes newContext
          (extractFieldInfo exampleTypes (mkField ''P'' ''p'' 14)) 0
        = Some (PropertyDefinition ''object'' ''P'' []
                 [''event_name'', ''event_version'', ''event_id''] None
                 [(''event_name'', PropertyDefinition ''string'' ''EventName'' [] [] None [] []),
                  (''event_version'', PropertyDefinition ''string'' ''EventVersion'' [] [] None [] []),
                  (''event_id'', PropertyDefinition ''string'' ''EventID'' [] [] None [] [])] [],
                \<lparr>visited = {7}, definitions = [], counter = 0\<rparr>)"
    by code_simp
  from C10_only_struct_fields_are_hoisted [OF k e] k e show ?thesis by blast
qed

section \<open>Arrays and item definitions\<close>

lemma Field_analyzeFieldType [simp]: "Field (analyzeFieldType env info) = Field info"
  by (simp add: analyzeFieldType_def handleSliceType_def handlePointerType_def Let_def
      split: prod.splits)

lemma Field_extractFieldInfo [simp]: "Field (extractFieldInfo env field) = field"
  by (simp add: extractFieldInfo_def Let_def newFieldInfo_def)

lemma IsArray_handleSliceType [simp]: "IsArray (handleSliceType env info t) = IsArray info"
  by (simp add: handleSliceType_def Let_def split: prod.splits)

lemma IsArray_extractFieldInfo_sequence:
  assumes "sequenceField env field" and "\<not> byteBlobField env field"
    and "TypeString env (FieldType field) \<noteq> ''interface{}''"
    and "hd (splitComma (FieldTag field)) \<noteq> ''-''"
  shows "IsArray (extractFieldInfo env field)"
  using assms
  by (auto simp add: extractFieldInfo_not_skipped analyzeFieldType_def sequenceField_def
      byteBlobField_def handlePointerType_def newFieldInfo_def Let_def split: prod.splits)

lemma buildFieldProperty_array:
  assumes "IsArray info" and "Kind env (FieldType (Field info)) \<noteq> KStruct"
    and "buildFieldProperty n env ctx info c = Some (p, ctx')"
  shows "Type p = typeArray \<and> Items p \<noteq> None"
  using assms
  by (auto simp add: buildFieldProperty.simps shouldUseDefinition_def buildArrayProperty_def
      Let_def split: option.splits if_splits)

lemma buildFieldProperty_items:
  assumes "buildFieldProperty n env ctx info c = Some (p, ctx')" and "Type p \<noteq> typeArray"
  shows "Items p = None"
  using assms
  by (auto simp add: buildFieldProperty.simps createDefinitionReference_def
      buildArrayProperty_def buildObjectProperty_def Let_def split: option.splits if_splits)

lemma set_update_cases:
  "(k', v') \<in> set (AList.update k v al) \<Longrightarrow> (k', v') = (k, v) \<or> (k', v') \<in> set al"
  by (induction al) (auto split: if_splits)

lemma reflectFields_items:
  assumes "reflectFields n env ctx fs c acc = Some (ps, ctx')"
    and "\<forall>(k, q) \<in> set acc. Type q \<noteq> typeArray \<longrightarrow> Items q = None"
  shows "\<forall>(k, q) \<in> set ps. Type q \<noteq> typeArray \<longrightarrow> Items q = None"
  using assms
proof (induction fs arbitrary: ctx acc)
  case Nil
  then show ?case by simp
next
  case (Cons f fs)
  show ?case
  proof (cases "TagName (extractFieldInfo env f) = ''-'' \<or> TagName (extractFieldInfo env f) = []")
    case True
    with Cons.prems(1) have "reflectFields n env ctx fs c acc = Some (ps, ctx')"
      by (simp add: Let_def)
    from Cons.IH [OF this Cons.prems(2)] show ?thesis .
  next
    case False
    with Cons.prems(1) obtain p ctx1 where
      b: "buildFieldProperty n env ctx (extractFieldInfo env f) c = Some (p, ctx1)" and
      r: "reflectFields n env ctx1 fs c
            (AList.update (TagName (extractFieldInfo env f)) p acc) = Some (ps, ctx')"
      by (auto simp add: Let_def split: option.splits)
    have "\<forall>(k, q) \<in> set (AList.update (TagName (extractFieldInfo env f)) p acc).
            Type q \<noteq> typeArray \<longrightarrow> Items q = None"
      using Cons.prems(2) buildFieldProperty_items [OF b]
      by (auto dest: set_update_cases)
    from Cons.IH [OF r this] show ?thesis .
  qed
qed

lemma buildProperties_items:
  assumes "buildProperties n env ctx t c = Some ((props, req), ctx')"
  shows "\<forall>(k, q) \<in> set props. Type q \<noteq> typeArray \<longrightarrow> Items q = None"
proof (cases n)
  case 0
  with assms show ?thesis by (simp add: buildProperties.simps)
next
  case (Suc m)
  have e: "\<forall>(k, q) \<in> set ([] :: properties). Type q \<noteq> typeArray \<longrightarrow> Items q = None"
    by simp
  from assms Suc consider "props = []"
    | ctx0 t1 where "reflectFields m env ctx0 (Fields env t1) c [] = Some (props, ctx')"
    by (auto simp add: buildProperties.simps Let_def split: if_splits option.splits)
  then show ?thesis
  proof cases
    case 1
    then show ?thesis by simp
  next
    case 2
    from reflectFields_items [OF this e] show ?thesis .
  qed
qed

text \<open>
  Claim C4, as the code has it. The property built for a field whose type is a slice or
  a pointer to a slice has type \<open>array\<close> and an item definition, unless the field is
  a raw byte blob (which C6 makes a string). The exclusion of a type printed as
  \<open>interface{}\<close> is vacuous for Go types, whose slices are printed with a leading
  \<open>[]\<close> or by name. In every property mapping that \<open>buildProperties\<close> returns, at any
  depth of the walk, a property whose type is not \<open>array\<close> has no item definition.
\<close>

theorem C4_arrays_and_items:
  "(sequenceField env field \<and> \<not> byteBlobField env field
      \<and> TypeString env (FieldType field) \<noteq> ''interface{}''
      \<and> hd (splitComma (FieldTag field)) \<noteq> ''-''
      \<and> buildFieldProperty n env ctx (extractFieldInfo env field) c = Some (p, ctx')
     \<longrightarrow> Type p = typeArray \<and> Items p \<noteq> None)
   \<and> (buildProperties m env ctx0 t c0 = Some ((props, req), ctx1)
     \<longrightarrow> (\<forall>(k, q) \<in> set props. Type q \<noteq> typeArray \<longrightarrow> Items q = None))"
proof -
  have a: "sequenceField env field \<and> \<not> byteBlobField env field
      \<and> TypeString env (FieldType field) \<noteq> ''interface{}''
      \<and> hd (splitComma (FieldTag field)) \<noteq> ''-''
      \<and> buildFieldProperty n env ctx (extractFieldInfo env field) c = Some (p, ctx')
     \<longrightarrow> Type p = typeArray \<and> Items p \<noteq> None"
  proof (intro impI, elim conjE)
    assume s: "sequenceField env field" and nb: "\<not> byteBlobField env field"
      and ni: "TypeString env (FieldType field) \<noteq> ''interface{}''"
      and nd: "hd (splitComma (FieldTag field)) \<noteq> ''-''"
      and b: "buildFieldProperty n env ctx (extractFieldInfo env field) c = Some (p, ctx')"
    have k: "Kind env (FieldType (Field (extractFieldInfo env field))) \<noteq> KStruct"
      using s by (auto simp add: sequenceField_def)
    from buildFieldProperty_array [OF IsArray_extractFieldInfo_sequence [OF s nb ni nd] k b]
    show "Type p = typeArray \<and> Items p \<noteq> None" .
  qed
  have b: "buildProperties m env ctx0 t c0 = Some ((props, req), ctx1)
     \<longrightarrow> (\<forall>(k, q) \<in> set props. Type q \<noteq> typeArray \<longrightarrow> Items q = None)"
    using buildProperties_items by blast
  from a b show ?thesis by blast
qed

text \<open>
  The field \<open>Children []RecursiveStruct\<close> met again inside \<open>RecursiveStruct\<close>, and the
  property mapping of \<open>EdgeCase\<close>.
\<close>

theorem C4_arrays_and_items_witness:
  "sequenceField exampleTypes (mkField ''Children'' ''children,omitempty'' 9)
   \<and> \<not> byteBlobField exampleTypes (mkField ''Children'' ''children,omitempty'' 9)
   \<and> buildFieldProperty 1 exampleTypes (newContext\<lparr>visited := {8}\<rparr>)
        (extractFieldInfo exampleTypes (mkField ''Children'' ''children,omitempty'' 9)) 1
       = Some (PropertyDefinition ''array'' ''Children'' [] []
                 (Some (PropertyDefinition ''struct'' ''Children'' [] [] None [] [])) [] [],
               newContext\<lparr>visited := {8}\<rparr>)
   \<and> Type (PropertyDefinition ''array'' ''Children'' [] []
                 (Some (PropertyDefinition ''struct'' ''Children'' [] [] None [] [])) [] []) = typeArray
   \<and> buildProperties 1 exampleTypes newContext 10 0
       = Some (([(''interface_field'', PropertyDefinition [] ''InterfaceField'' [] [] None [] []),
                 (''byte_slice'', PropertyDefinition ''string'' ''ByteSlice'' ''byte'' [] None [] [])],
                [''interface_field'']), newContext\<lparr>visited := {10}\<rparr>)
   \<and> Type (PropertyDefinition ''string'' ''ByteSlice'' ''byte'' [] None [] []) \<noteq> typeArray
   \<and> Items (PropertyDefinition ''string'' ''ByteSlice'' ''byte'' [] None [] []) = None"
proof -
  have s: "sequenceField exampleTypes (mkField ''Children'' ''children,omitempty'' 9)
     \<and> \<not> byteBlobField exampleTypes (mkField ''Children'' ''children,omitempty'' 9)
     \<and> TypeString exampleTypes (FieldType (mkField ''Children'' ''children,omitempty'' 9)) \<noteq> ''interface{}''
     \<and> hd (splitComma (FieldTag (mkField ''Children'' ''children,omitempty'' 9))) \<noteq> ''-''"
    by code_simp
  have b: "buildFieldProperty 1 exampleTypes (newContext\<lparr>visited := {8}\<rparr>)
        (extractFieldInfo exampleTypes (mkField ''Children'' ''children,omitempty'' 9)) 1
       = Some (PropertyDefinition ''array'' ''Children'' [] []
                 (Some (PropertyDefinition ''struct'' ''Children'' [] [] None [] [])) [] [],
               newContext\<lparr>visited := {8}\<rparr>)"
    by code_simp
  have w: "buildProperties 1 exampleTypes newContext 10 0
       = Some (([(''interface_field'', PropertyDefinition [] ''InterfaceField'' [] [] None [] []),
                 (''byte_slice'', PropertyDefinition ''string'' ''ByteSlice'' ''byte'' [] None [] [])],
                [''interface_field'']), newContext\<lparr>visited := {10}\<rparr>)"
    by code_simp
  have t: "Type (PropertyDefinition ''string'' ''ByteSlice'' ''byte'' [] None [] []) \<noteq> typeArray"
    by (simp add: typeArray_def)
  have m: "(''byte_slice'', PropertyDefinition ''string'' ''ByteSlice'' ''byte'' [] None [] [])
             \<in> set [(''interface_field'', PropertyDefinition [] ''InterfaceField'' [] [] None [] []),
                 (''byte_slice'', PropertyDefinition ''string'' ''ByteSlice'' ''byte'' [] None [] [])]"
    by simp
  note c4 = C4_arrays_and_items [of exampleTypes "mkField ''Children'' ''children,omitempty'' 9"
      1 "newContext\<lparr>visited := {8}\<rparr>" 1
      "PropertyDefinition ''array'' ''Children'' [] []
                 (Some (PropertyDefinition ''struct'' ''Children'' [] [] None [] [])) [] []"
      "newContext\<lparr>visited := {8}\<rparr>" 1 newContext 10 0
      "[(''interface_field'', PropertyDefinition [] ''InterfaceField'' [] [] None [] []),
        (''byte_slice'', PropertyDefinition ''string'' ''ByteSlice'' ''byte'' [] None [] [])]"
      "[''interface_field'']" "newContext\<lparr>visited := {10}\<rparr>"]
  from c4 s b have a1: "Type (PropertyDefinition ''array'' ''Children'' [] []
                 (Some (PropertyDefinition ''struct'' ''Children'' [] [] None [] [])) [] []) = typeArray"
    by blast
  from c4 w m t have a2: "Items (PropertyDefinition ''string'' ''ByteSlice'' ''byte'' [] None [] []) = None"
    by blast
  from s b w t a1 a2 show ?thesis by blast
qed

text \<open>
  The field \<open>ByteSlice []byte\<close> is sequence-shaped, its kind is slice, and its
  property has type \<open>string\<close> and no item definition.
\<close>

theorem C4_counterexample:
  "Kind exampleTypes (FieldType (mkField ''ByteSlice'' ''byte_slice'' 5)) = KSlice
   \<and> sequenceShaped exampleTypes (mkField ''ByteSlice'' ''byte_slice'' 5)
   \<and> buildFieldProperty 1 exampleTypes newContext
        (extractFieldInfo exampleTypes (mkField ''ByteSlice'' ''byte_slice'' 5)) 0
       = Some (PropertyDefinition ''string'' ''ByteSlice'' ''byte'' [] None [] [], newContext)
   \<and> ''string'' \<noteq> typeArray"
  by code_simp

section \<open>Termination of the walk\<close>

text \<open>
  Below the fields of the root the guard of \<open>buildProperties\<close> is armed (the counter
  exceeds one), so every expansion there marks a struct type that was not visited before;
  the number of unvisited struct types of the table bounds the nesting from then on.
  A budget of that number plus three minus the counter (capped at two) is enough.
\<close>

lemma struct_in_table: "Kind env t = KStruct \<Longrightarrow> t < length env"
  by (auto simp add: Kind_def typeAt_def invalidType_def split: if_splits)

lemma finite_structTypes: "finite (structTypes env)"
  by (simp add: structTypes_def)

lemma unvisited_le_length: "unvisited env ctx \<le> length env"
proof -
  have "structTypes env - visited ctx \<subseteq> {..<length env}"
    by (auto simp add: structTypes_def)
  then have "card (structTypes env - visited ctx) \<le> card {..<length env}"
    by (intro card_mono) simp_all
  then show ?thesis by (simp add: unvisited_def)
qed

lemma unvisited_mono:
  "visited ctx \<subseteq> visited ctx' \<Longrightarrow> unvisited env ctx' \<le> unvisited env ctx"
  unfolding unvisited_def
  by (intro card_mono finite_Diff finite_structTypes) auto

lemma unvisited_insert:
  assumes "Kind env t = KStruct" and "t \<notin> visited ctx"
  shows "unvisited env (ctx\<lparr>visited := insert t (visited ctx)\<rparr>) < unvisited env ctx"
proof -
  have m: "t \<in> structTypes env - visited ctx"
    using assms struct_in_table [OF assms(1)] by (simp add: structTypes_def)
  have "structTypes env - insert t (visited ctx) \<subset> structTypes env - visited ctx"
    using m by auto
  then show ?thesis
    unfolding unvisited_def
    by (simp add: psubset_card_mono finite_structTypes)
qed

lemma buildFieldProperty_returns:
  assumes bp: "\<And>ctx t c. unvisited env ctx + (3 - min c 2) \<le> n \<Longrightarrow>
                 \<exists>r ctx'. buildProperties n env ctx t c = Some (r, ctx') \<and> visited ctx \<subseteq> visited ctx'"
    and b: "unvisited env ctx + (3 - min (c + 1) 2) \<le> n"
  shows "\<exists>p ctx'. buildFieldProperty n env ctx info c = Some (p, ctx') \<and> visited ctx \<subseteq> visited ctx'"
proof (cases "SkipNested info")
  case True
  then show ?thesis
    by (cases "createDefinitionReference env ctx info [] []")
       (auto simp add: buildFieldProperty.simps shouldUseDefinition_def)
next
  case False
  from bp [OF b, of "FieldType (Field info)"] obtain r0 ctx1 where
    r0: "buildProperties n env ctx (FieldType (Field info)) (c + 1) = Some (r0, ctx1)"
    and v: "visited ctx \<subseteq> visited ctx1"
    by blast
  obtain nested required where "r0 = (nested, required)"
    by (cases r0)
  with r0 have
    r: "buildProperties n env ctx (FieldType (Field info)) (c + 1) = Some ((nested, required), ctx1)"
    by simp
  have "visited (snd (createDefinitionReference env ctx1 info nested required)) = visited ctx1"
    by (rule visited_createDefinitionReference)
  with False r v show ?thesis
    by (cases "createDefinitionReference env ctx1 info nested required")
       (auto simp add: buildFieldProperty.simps)
qed

lemma reflectFields_returns:
  assumes bp: "\<And>ctx t c. unvisited env ctx + (3 - min c 2) \<le> n \<Longrightarrow>
                 \<exists>r ctx'. buildProperties n env ctx t c = Some (r, ctx') \<and> visited ctx \<subseteq> visited ctx'"
    and b: "unvisited env ctx + (3 - min (c + 1) 2) \<le> n"
  shows "\<exists>ps ctx'. reflectFields n env ctx fs c acc = Some (ps, ctx') \<and> visited ctx \<subseteq> visited ctx'"
  using b
proof (induction fs arbitrary: ctx acc)
  case Nil
  show ?case by simp
next
  case (Cons f fs)
  show ?case
  proof (cases "TagName (extractFieldInfo env f) = ''-'' \<or> TagName (extractFieldInfo env f) = []")
    case True
    with Cons.IH [OF Cons.prems, of acc] show ?thesis
      by (simp add: Let_def)
  next
    case False
    from buildFieldProperty_returns [OF bp Cons.prems, of "extractFieldInfo env f"]
    obtain p ctx1 where
      q: "buildFieldProperty n env ctx (extractFieldInfo env f) c = Some (p, ctx1)"
      and v: "visited ctx \<subseteq> visited ctx1"
      by auto
    from unvisited_mono [OF v, of env] Cons.prems
    have "unvisited env ctx1 + (3 - min (c + 1) 2) \<le> n" by simp
    from Cons.IH [OF this, of "AList.update (TagName (extractFieldInfo env f)) p acc"]
    obtain ps ctx' where
      r: "reflectFields n env ctx1 fs c
            (AList.update (TagName (extractFieldInfo env f)) p acc) = Some (ps, ctx')"
      and v': "visited ctx1 \<subseteq> visited ctx'"
      by auto
    from False q r v v' show ?thesis
      by (auto simp add: Let_def)
  qed
qed

lemma expand_returns:
  assumes rf: "\<forall>ctx fs c acc. unvisited env ctx + (3 - min (c + 1) 2) \<le> n \<longrightarrow>
                 (\<exists>ps ctx'. reflectFields n env ctx fs c acc = Some (ps, ctx') \<and> visited ctx \<subseteq> visited ctx')"
    and b: "unvisited env ctx + (3 - min c 2) \<le> Suc n"
    and k: "Kind env t1 = KStruct"
    and g: "\<not> (t1 \<in> visited ctx \<and> c > 1)"
  shows "\<exists>ps ctx'. reflectFields n env (ctx\<lparr>visited := insert t1 (visited ctx)\<rparr>) fs c []
                      = Some (ps, ctx') \<and> visited ctx \<subseteq> visited ctx'"
proof -
  let ?ctx1 = "ctx\<lparr>visited := insert t1 (visited ctx)\<rparr>"
  have "unvisited env ?ctx1 + (3 - min (c + 1) 2) \<le> n"
  proof (cases "c > 1")
    case True
    with g have "t1 \<notin> visited ctx" by simp
    from unvisited_insert [OF k this] b True show ?thesis by simp
  next
    case False
    have "unvisited env ?ctx1 \<le> unvisited env ctx"
      by (rule unvisited_mono) auto
    with b False show ?thesis
      by (cases c) auto
  qed
  with rf obtain ps ctx' where
    "reflectFields n env ?ctx1 fs c [] = Some (ps, ctx')" and "visited ?ctx1 \<subseteq> visited ctx'"
    by blast
  then show ?thesis by auto
qed

lemma buildProperties_returns:
  "unvisited env ctx + (3 - min c 2) \<le> n \<Longrightarrow>
   \<exists>r ctx'. buildProperties n env ctx t c = Some (r, ctx') \<and> visited ctx \<subseteq> visited ctx'"
proof (induction n arbitrary: ctx t c)
  case 0
  then show ?case by simp
next
  case (Suc n)
  have rf: "\<forall>ctx fs c acc. unvisited env ctx + (3 - min (c + 1) 2) \<le> n \<longrightarrow>
              (\<exists>ps ctx'. reflectFields n env ctx fs c acc = Some (ps, ctx') \<and> visited ctx \<subseteq> visited ctx')"
    using reflectFields_returns [of env n, OF Suc.IH] by blast
  note ex = expand_returns [OF rf Suc.prems]
  show ?case
  proof (cases "Kind env t = KSlice")
    case True
    define t1 where "t1 = (if Kind env (Elem env t) = KPointer then Elem env (Elem env t) else Elem env t)"
    show ?thesis
    proof (cases "Kind env t1 = KStruct \<and> \<not> (t1 \<in> visited ctx \<and> c > 1)")
      case False
      with True show ?thesis
        by (auto simp add: buildProperties.simps Let_def t1_def)
    next
      case yes: True
      from ex [of t1 "Fields env t1"] yes obtain ps ctx' where
        "reflectFields n env (ctx\<lparr>visited := insert t1 (visited ctx)\<rparr>) (Fields env t1) c []
           = Some (ps, ctx')" and "visited ctx \<subseteq> visited ctx'"
        by auto
      with True yes show ?thesis
        by (auto simp add: buildProperties.simps Let_def t1_def)
    qed
  next
    case notSlice: False
    show ?thesis
    proof (cases "Kind env t = KStruct")
      case True
      show ?thesis
      proof (cases "t \<in> visited ctx \<and> c > 1")
        case stop: True
        with True show ?thesis
          by (auto simp add: buildProperties.simps Let_def)
      next
        case go: False
        from ex [OF True go, of "Fields env t"] obtain ps ctx' where
          "reflectFields n env (ctx\<lparr>visited := insert t (visited ctx)\<rparr>) (Fields env t) c []
             = Some (ps, ctx')" and "visited ctx \<subseteq> visited ctx'"
          by auto
        with True go show ?thesis
          by (auto simp add: buildProperties.simps Let_def)
      qed
    next
      case notStruct: False
      show ?thesis
      proof (cases "Kind env t = KPointer")
        case False
        with notSlice notStruct show ?thesis
          by (simp add: buildProperties.simps)
      next
        case True
        define t0 where "t0 = (if Kind env (Elem env t) = KSlice
                                  \<and> Kind env (Elem env (Elem env t)) = KStruct
                               then Elem env t else t)"
        show ?thesis
        proof (cases "Kind env (Elem env t0) = KStruct
                      \<and> \<not> (Elem env t0 \<in> visited ctx \<and> c > 1)")
          case False
          with True notSlice notStruct show ?thesis
            by (auto simp add: buildProperties.simps Let_def t0_def)
        next
          case yes: True
          from ex [of "Elem env t0" "Fields env (Elem env t0)"] yes obtain ps ctx' where
            "reflectFields n env (ctx\<lparr>visited := insert (Elem env t0) (visited ctx)\<rparr>)
               (Fields env (Elem env t0)) c [] = Some (ps, ctx')"
            and "visited ctx \<subseteq> visited ctx'"
            by auto
          with True notSlice notStruct yes show ?thesis
            by (auto simp add: buildProperties.simps Let_def t0_def)
        qed
      qed
    qed
  qed
qed

lemma walk_budget:
  "\<exists>r ctx'. buildProperties (length env + 3 + k) env ctx t c = Some (r, ctx')
             \<and> visited ctx \<subseteq> visited ctx'"
proof -
  have "unvisited env ctx + (3 - min c 2) \<le> length env + 3 + k"
    using unvisited_le_length [of env ctx] by simp
  then show ?thesis by (rule buildProperties_returns)
qed

text \<open>
  Claim C2. The walk terminates on every type table, cyclic or not: with a budget of the
  size of the table plus three (or more), \<open>buildProperties\<close> returns for every context,
  type and counter, and never unmarks a visited type. On \<open>RecursiveStruct\<close> the field
  \<open>Children\<close> is expanded once and then emitted as a terminal array without nested
  properties. The counter, however, is not reset between sibling fields: \<open>reflectStruct\<close>
  hands every field of a struct the same counter and \<open>buildFieldProperty\<close> resets only
  its own copy. In \<open>Root\<close>, whose field \<open>M\<close> is a \<open>Mid\<close> with the sibling fields
  \<open>A\<close> and \<open>B\<close> of type \<open>EventTags\<close>, \<open>A\<close> is expanded and \<open>B\<close>, which merely
  shares its type with \<open>A\<close>, is emitted as a terminal of type \<open>struct\<close> without
  properties.
\<close>

theorem C2_walk_returns_but_sibling_is_cut:
  "(\<exists>r ctx'. buildProperties (length env + 3 + k) env ctx t c = Some (r, ctx')
       \<and> visited ctx \<subseteq> visited ctx')
   \<and> GenerateProperties 21 exampleTypes (Some 8)
       = Some (Inr
           [(''name'', PropertyDefinition ''string'' ''Name'' [] [] None [] []),
            (''children'', PropertyDefinition ''array'' ''Children'' [] []
               (Some (PropertyDefinition ''object'' ''Children'' [] [] None
                  [(''name'', PropertyDefinition ''string'' ''Name'' [] [] None [] []),
                   (''children'', PropertyDefinition ''array'' ''Children'' [] []
                      (Some (PropertyDefinition ''struct'' ''Children'' [] [] None [] [])) [] [])]
                  [])) [] [])])
   \<and> GenerateProperties 21 exampleTypes (Some 12)
       = Some (Inr
           [(''m'', PropertyDefinition ''object'' ''M'' [] [''a'', ''b''] None
              [(''a'', PropertyDefinition [] ''A'' [] [] None [] ''#/$defs/EventTags''),
               (''b'', PropertyDefinition ''struct'' ''B'' []
                  [''event_name'', ''event_version'', ''event_id''] None [] [])]
              [])])"
proof -
  have a: "\<exists>r ctx'. buildProperties (length env + 3 + k) env ctx t c = Some (r, ctx')
       \<and> visited ctx \<subseteq> visited ctx'"
    by (rule walk_budget)
  have b: "GenerateProperties 21 exampleTypes (Some 8)
       = Some (Inr
           [(''name'', PropertyDefinition ''string'' ''Name'' [] [] None [] []),
            (''children'', PropertyDefinition ''array'' ''Children'' [] []
               (Some (PropertyDefinition ''object'' ''Children'' [] [] None
                  [(''name'', PropertyDefinition ''string'' ''Name'' [] [] None [] []),
                   (''children'', PropertyDefinition ''array'' ''Children'' [] []
                      (Some (PropertyDefinition ''struct'' ''Children'' [] [] None [] [])) [] [])]
                  [])) [] [])])"
    by code_simp
  have c: "GenerateProperties 21 exampleTypes (Some 12)
       = Some (Inr
           [(''m'', PropertyDefinition ''object'' ''M'' [] [''a'', ''b''] None
              [(''a'', PropertyDefinition [] ''A'' [] [] None [] ''#/$defs/EventTags''),
               (''b'', PropertyDefinition ''struct'' ''B'' []
                  [''event_name'', ''event_version'', ''event_id''] None [] [])]
              [])])"
    by code_simp
  from a b c show ?thesis by blast
qed

text \<open>
  Claim C3 at two roots. In \<open>Pair\<close> the sibling fields \<open>First\<close> and \<open>Second\<close> of
  type \<open>EventTags\<close> (three properties) are fields of the root: one entry in the
  definitions table and two reference nodes, each with the reference and the label only.
  In \<open>Root\<close> the same two siblings sit one level down, in \<open>Mid\<close>: one entry in the
  definitions table and one reference node; \<open>B\<close> is cut by the guard of the walk,
  has no nested properties and so is not hoisted.
\<close>

theorem C3_nested_siblings_one_reference:
  "GenerateSchema 21 exampleTypes (Some 13) ''T'' ''U''
     = Some (Inr \<lparr>SchemaURL = ''U'', Title = ''T'', SchemaType = ''object'',
          SchemaRequired = [''first'', ''second''],
          SchemaProperties =
            [(''first'', PropertyDefinition [] ''First'' [] [] None [] ''#/$defs/EventTags''),
             (''second'', PropertyDefinition [] ''Second'' [] [] None [] ''#/$defs/EventTags'')],
          Definitions =
            [(''EventTags'', PropertyDefinition ''object'' ''First'' []
                [''event_name'', ''event_version'', ''event_id''] None
                [(''event_name'', PropertyDefinition ''string'' ''EventName'' [] [] None [] []),
                 (''event_version'', PropertyDefinition ''string'' ''EventVersion'' [] [] None [] []),
                 (''event_id'', PropertyDefinition ''string'' ''EventID'' [] [] None [] [])]
                [])]\<rparr>)
   \<and> GenerateSchema 21 exampleTypes (Some 12) ''T'' ''U''
     = Some (Inr \<lparr>SchemaURL = ''U'', Title = ''T'', SchemaType = ''object'',
          SchemaRequired = [''m''],
          SchemaProperties =
            [(''m'', PropertyDefinition ''object'' ''M'' [] [''a'', ''b''] None
               [(''a'', PropertyDefinition [] ''A'' [] [] None [] ''#/$defs/EventTags''),
                (''b'', PropertyDefinition ''struct'' ''B'' []
                   [''event_name'', ''event_version'', ''event_id''] None [] [])]
               [])],
          Definitions =
            [(''EventTags'', PropertyDefinition ''object'' ''A'' []
                [''event_name'', ''event_version'', ''event_id''] None
                [(''event_name'', PropertyDefinition ''string'' ''EventName'' [] [] None [] []),
                 (''event_version'', PropertyDefinition ''string'' ''EventVersion'' [] [] None [] []),
                 (''event_id'', PropertyDefinition ''string'' ''EventID'' [] [] None [] [])]
                [])]\<rparr>)"
  by code_simp

end
